theory Spec2Isabelle
  imports Complex_Main "HOL-Library.AList"
begin

section \<open>Python values, dictionaries and exceptions\<close>

text \<open>
  The argument values of a tool call are Python objects. The model has the values that the
  code of \<^verbatim>\<open>app/mcp/base.py\<close> inspects: \<^verbatim>\<open>None\<close>, booleans, unbounded integers, strings and
  lists. Floats and dictionaries as argument values are outside the model.

  A Python \<^verbatim>\<open>str\<close> is modelled by its UTF-8 encoding, one \<open>char\<close> per byte; two Python strings
  are equal exactly when their encodings are.
\<close>

datatype pyval = PNone | PBool bool | PInt int | PStr string | PList "pyval list"

text \<open>Python's \<^verbatim>\<open>==\<close> on these values: a boolean is the integer 0 or 1, lists compare
  elementwise.\<close>

fun py_eq :: "pyval \<Rightarrow> pyval \<Rightarrow> bool"
  and py_eq_list :: "pyval list \<Rightarrow> pyval list \<Rightarrow> bool" where
  "py_eq PNone PNone = True"
| "py_eq (PBool a) (PBool b) = (a = b)"
| "py_eq (PBool a) (PInt i) = (i = (if a then 1 else 0))"
| "py_eq (PInt i) (PBool b) = (i = (if b then 1 else 0))"
| "py_eq (PInt i) (PInt j) = (i = j)"
| "py_eq (PStr s) (PStr t) = (s = t)"
| "py_eq (PList xs) (PList ys) = py_eq_list xs ys"
| "py_eq _ _ = False"
| "py_eq_list [] [] = True"
| "py_eq_list (x # xs) (y # ys) = (py_eq x y \<and> py_eq_list xs ys)"
| "py_eq_list _ _ = False"

text \<open>\<^verbatim>\<open>value in xs\<close> for a list \<^verbatim>\<open>xs\<close>.\<close>

fun py_in :: "pyval \<Rightarrow> pyval list \<Rightarrow> bool" where
  "py_in v [] = False"
| "py_in v (x # xs) = (py_eq x v \<or> py_in v xs)"

text \<open>
  A \<^verbatim>\<open>dict\<close> is an association list with distinct keys in insertion order;
  \<^verbatim>\<open>d[k] = v\<close> is \<^const>\<open>AList.update\<close> (an existing key keeps its place, a new key goes to
  the end) and \<^verbatim>\<open>d.get(k)\<close> is \<^const>\<open>map_of\<close>, with \<^verbatim>\<open>None\<close> for a missing key.
\<close>

type_synonym 'v dict = "(string \<times> 'v) list"

definition dict_get :: "pyval dict \<Rightarrow> string \<Rightarrow> pyval" where
  "dict_get d k = (case map_of d k of None \<Rightarrow> PNone | Some v \<Rightarrow> v)"

text \<open>
  A raised exception is a value: its class name and the text \<^verbatim>\<open>str(e)\<close>. The exceptions of
  the model are instances of \<^verbatim>\<open>Exception\<close>, the ones an \<^verbatim>\<open>except Exception\<close> clause handles;
  interpreter exits and task cancellation are outside the model.
\<close>

datatype py_exception = Raised string string

fun str_of :: "py_exception \<Rightarrow> string" where
  "str_of (Raised c m) = m"

definition ValueError :: "string \<Rightarrow> py_exception" where
  "ValueError m = Raised ''ValueError'' m"

definition KeyError :: "string \<Rightarrow> py_exception" where
  "KeyError k = Raised ''KeyError'' ([CHR 0x27] @ k @ [CHR 0x27])"

section \<open>The data model of \<^verbatim>\<open>app/mcp/base.py\<close>\<close>

record ToolParameter =
  param_name :: string
  param_type :: string
  param_description :: string
  param_required :: bool
  param_default :: pyval
  param_enum :: "pyval list option"

record ToolMetadata =
  meta_name :: string
  meta_description :: string
  parameters :: "ToolParameter list"
  category :: string
  version :: string
  author :: "string option"
  tags :: "string list"

text \<open>
  \<open>execution_time\<close> is in seconds; \<open>timestamp\<close> is a reading of the wall clock
  in microseconds.
\<close>

record ToolResult =
  success :: bool
  result :: pyval
  error :: "string option"
  result_metadata :: "pyval dict option"
  execution_time :: "real option"
  timestamp :: int

text \<open>
  A tool is an object of a subclass of \<^verbatim>\<open>MCPTool\<close>: the base class holds the flag
  \<^verbatim>\<open>_initialized\<close>, the subclass supplies the metadata and the two hooks \<^verbatim>\<open>_initialize\<close> and
  \<^verbatim>\<open>execute\<close>, which may read and change the subclass's own state \<open>'s\<close> and may raise. A hook
  returns the state it leaves behind also when it raises. The hook \<open>execute\<close> stands for
  the whole call \<^verbatim>\<open>self.execute(**validated_params)\<close>: a \<^verbatim>\<open>TypeError\<close> that Python raises
  when the dictionary does not fit the subclass's signature is one of its exceptions.
\<close>

record 's MCPTool =
  metadata :: ToolMetadata
  initialized :: bool
  self_state :: 's
  initialize_hook :: "'s \<Rightarrow> py_exception option \<times> 's"
  execute :: "'s \<Rightarrow> pyval dict \<Rightarrow> (py_exception + ToolResult) \<times> 's"

section \<open>\<^verbatim>\<open>MCPTool.initialize\<close>\<close>

text \<open>The calls of \<^verbatim>\<open>print\<close> are left out.\<close>

definition initialize :: "'s MCPTool \<Rightarrow> (py_exception + bool) \<times> 's MCPTool" where
  "initialize self =
     (if \<not> initialized self then
        (case initialize_hook self (self_state self) of
           (None, s') \<Rightarrow> (Inr True, self\<lparr>self_state := s', initialized := True\<rparr>)
         | (Some e, s') \<Rightarrow> (Inr False, self\<lparr>self_state := s'\<rparr>))
      else (Inr True, self))"

section \<open>\<^verbatim>\<open>MCPTool.validate_parameters\<close>\<close>

text \<open>
  The two messages, as UTF-8. The second one formats \<^verbatim>\<open>param.enum\<close> with Python's built-in
  \<^verbatim>\<open>str\<close>, which is a parameter \<open>py_str\<close> of the model.
\<close>

definition missing_message :: "string \<Rightarrow> string" where
  "missing_message n =
     [CHR 0xE7, CHR 0xBC, CHR 0xBA, CHR 0xE5, CHR 0xB0, CHR 0x91, CHR 0xE5, CHR 0xBF, CHR 0x85,
      CHR 0xE9, CHR 0x9C, CHR 0x80, CHR 0xE5, CHR 0x8F, CHR 0x82, CHR 0xE6, CHR 0x95, CHR 0xB0,
      CHR '':'', CHR '' ''] @ n"

definition enum_message :: "(pyval \<Rightarrow> string) \<Rightarrow> string \<Rightarrow> pyval list \<Rightarrow> string" where
  "enum_message py_str n allowed =
     [CHR 0xE5, CHR 0x8F, CHR 0x82, CHR 0xE6, CHR 0x95, CHR 0xB0, CHR '' ''] @ n @
     [CHR '' '', CHR 0xE5, CHR 0x80, CHR 0xBC, CHR 0xE5, CHR 0xBF, CHR 0x85, CHR 0xE9, CHR 0xA1,
      CHR 0xBB, CHR 0xE5, CHR 0x9C, CHR 0xA8, CHR '' ''] @ py_str (PList allowed) @
     [CHR '' '', CHR 0xE4, CHR 0xB8, CHR 0xAD]"

text \<open>\<^verbatim>\<open>param.enum\<close> as a condition: neither \<^verbatim>\<open>None\<close> nor the empty list.\<close>

fun enum_values :: "pyval list option \<Rightarrow> pyval list" where
  "enum_values None = []"
| "enum_values (Some xs) = xs"

definition enum_truthy :: "pyval list option \<Rightarrow> bool" where
  "enum_truthy e = (enum_values e \<noteq> [])"

text \<open>The loop over \<^verbatim>\<open>self.metadata.parameters\<close>, with the dictionary \<^verbatim>\<open>validated\<close> built so
  far.\<close>

fun validate_loop ::
  "(pyval \<Rightarrow> string) \<Rightarrow> pyval dict \<Rightarrow> ToolParameter list \<Rightarrow> pyval dict
     \<Rightarrow> py_exception + pyval dict" where
  "validate_loop py_str kwargs [] validated = Inr validated"
| "validate_loop py_str kwargs (param # params) validated =
     (let val = dict_get kwargs (param_name param) in
      if param_required param \<and> val = PNone then
        Inl (ValueError (missing_message (param_name param)))
      else
        let val = (if val = PNone \<and> param_default param \<noteq> PNone
                   then param_default param else val) in
        if val \<noteq> PNone then
          if enum_truthy (param_enum param) \<and> \<not> py_in val (enum_values (param_enum param)) then
            Inl (ValueError (enum_message py_str (param_name param)
                   (enum_values (param_enum param))))
          else validate_loop py_str kwargs params (AList.update (param_name param) val validated)
        else validate_loop py_str kwargs params validated)"

definition validate_parameters ::
  "(pyval \<Rightarrow> string) \<Rightarrow> 's MCPTool \<Rightarrow> pyval dict \<Rightarrow> py_exception + pyval dict" where
  "validate_parameters py_str self kwargs =
     validate_loop py_str kwargs (parameters (metadata self)) []"

section \<open>\<^verbatim>\<open>MCPTool.safe_execute\<close>\<close>

definition init_failed_message :: string where
  "init_failed_message =
     [CHR 0xE5, CHR 0xB7, CHR 0xA5, CHR 0xE5, CHR 0x85, CHR 0xB7, CHR 0xE5, CHR 0x88, CHR 0x9D,
      CHR 0xE5, CHR 0xA7, CHR 0x8B, CHR 0xE5, CHR 0x8C, CHR 0x96, CHR 0xE5, CHR 0xA4, CHR 0xB1,
      CHR 0xE8, CHR 0xB4, CHR 0xA5]"

text \<open>
  The wall clock is the function \<open>now\<close>: the \<open>i\<close>-th call of \<^verbatim>\<open>datetime.now()\<close> that
  \<^verbatim>\<open>safe_execute\<close> itself makes (counted from 0, the constructor of \<^verbatim>\<open>ToolResult\<close> included)
  reads \<open>now i\<close>, in microseconds. \<^verbatim>\<open>total_seconds()\<close> is the exact quotient; its rounding to
  a float is not modelled.
\<close>

definition total_seconds :: "int \<Rightarrow> real" where
  "total_seconds us = real_of_int us / 1000000"

text \<open>The \<^verbatim>\<open>except Exception as e\<close> clause.\<close>

definition handler :: "(nat \<Rightarrow> int) \<Rightarrow> int \<Rightarrow> py_exception \<Rightarrow> ToolResult" where
  "handler now start_time e =
     (let execution_time = total_seconds (now 1 - start_time) in
      \<lparr>success = False, result = PNone, error = Some (str_of e), result_metadata = None,
       execution_time = Some execution_time, timestamp = now 2\<rparr>)"

definition safe_execute ::
  "(pyval \<Rightarrow> string) \<Rightarrow> (nat \<Rightarrow> int) \<Rightarrow> 's MCPTool \<Rightarrow> pyval dict
     \<Rightarrow> (py_exception + ToolResult) \<times> 's MCPTool" where
  "safe_execute py_str now self kwargs =
     (let start_time = now 0 in
      case initialize self of
        (Inl e, self1) \<Rightarrow> (Inr (handler now start_time e), self1)
      | (Inr ok, self1) \<Rightarrow>
          if \<not> ok then
            (Inr \<lparr>success = False, result = PNone, error = Some init_failed_message,
                  result_metadata = None, execution_time = None, timestamp = now 1\<rparr>, self1)
          else
            (case validate_parameters py_str self1 kwargs of
               Inl e \<Rightarrow> (Inr (handler now start_time e), self1)
             | Inr validated_params \<Rightarrow>
                 (case execute self1 (self_state self1) validated_params of
                    (Inl e, s') \<Rightarrow> (Inr (handler now start_time e), self1\<lparr>self_state := s'\<rparr>)
                  | (Inr res, s') \<Rightarrow>
                      (let execution_time = total_seconds (now 1 - start_time) in
                       (Inr (res\<lparr>execution_time := Some execution_time\<rparr>),
                        self1\<lparr>self_state := s'\<rparr>)))))"

section \<open>Calls with keyword arguments\<close>

text \<open>
  Both methods are declared \<^verbatim>\<open>f(self, **kwargs)\<close> and are called with a dictionary of
  arguments, \<^verbatim>\<open>tool.safe_execute(**parameters)\<close> in \<^verbatim>\<open>app/api/v1/tools.py\<close>. Python binds
  \<^verbatim>\<open>self\<close> to the tool first, so a dictionary that has the key \<^verbatim>\<open>self\<close> makes the call
  raise \<^verbatim>\<open>TypeError\<close> before the body runs, outside every \<^verbatim>\<open>try\<close> of the body. The functions
  \<open>validate_parameters\<close> and \<open>safe_execute\<close> above are the bodies, on the dictionary
  \<^verbatim>\<open>kwargs\<close> that the call has bound; the functions of this section are the calls. The message
  names the function as Python 3.10 and later print it.
\<close>

definition TypeError :: "string \<Rightarrow> py_exception" where
  "TypeError fname =
     Raised ''TypeError''
       (''MCPTool.'' @ fname @ ''() got multiple values for argument '' @ [CHR 0x27] @ ''self''
          @ [CHR 0x27])"

definition bind_kwargs :: "string \<Rightarrow> 'v dict \<Rightarrow> py_exception + 'v dict" where
  "bind_kwargs fname d = (if map_of d ''self'' = None then Inr d else Inl (TypeError fname))"

definition call_validate_parameters ::
  "(pyval \<Rightarrow> string) \<Rightarrow> 's MCPTool \<Rightarrow> pyval dict \<Rightarrow> py_exception + pyval dict" where
  "call_validate_parameters py_str self d =
     (case bind_kwargs ''validate_parameters'' d of
        Inl e \<Rightarrow> Inl e
      | Inr kwargs \<Rightarrow> validate_parameters py_str self kwargs)"

definition call_safe_execute ::
  "(pyval \<Rightarrow> string) \<Rightarrow> (nat \<Rightarrow> int) \<Rightarrow> 's MCPTool \<Rightarrow> pyval dict
     \<Rightarrow> (py_exception + ToolResult) \<times> 's MCPTool" where
  "call_safe_execute py_str now self d =
     (case bind_kwargs ''safe_execute'' d of
        Inl e \<Rightarrow> (Inl e, self)
      | Inr kwargs \<Rightarrow> safe_execute py_str now self kwargs)"

section \<open>\<^verbatim>\<open>MCPTool.to_langchain_tool_schema\<close>\<close>

record ParametersSchema =
  schema_type :: string
  properties :: "pyval dict dict"
  required :: "string list"

record ToolSchema =
  schema_name :: string
  schema_description :: string
  schema_parameters :: ParametersSchema

text \<open>The dictionary of one parameter; \<^verbatim>\<open>**{...}\<close> stores the keys of the inner dictionary.\<close>

definition property_schema :: "ToolParameter \<Rightarrow> pyval dict" where
  "property_schema param =
     (let d0 = [(''type'', PStr (param_type param)),
                (''description'', PStr (param_description param))];
          d1 = (if enum_truthy (param_enum param)
                then AList.update ''enum'' (PList (enum_values (param_enum param))) d0 else d0);
          d2 = (if param_default param \<noteq> PNone
                then AList.update ''default'' (param_default param) d1 else d1)
      in d2)"

definition to_langchain_tool_schema :: "'s MCPTool \<Rightarrow> ToolSchema" where
  "to_langchain_tool_schema self =
     \<lparr>schema_name = meta_name (metadata self),
      schema_description = meta_description (metadata self),
      schema_parameters =
        \<lparr>schema_type = ''object'',
         properties = foldl (\<lambda>d param. AList.update (param_name param) (property_schema param) d)
                        [] (parameters (metadata self)),
         required = map param_name (filter param_required (parameters (metadata self)))\<rparr>\<rparr>"

section \<open>\<^verbatim>\<open>ToolRegistry\<close>\<close>

record 's ToolRegistry =
  tools :: "'s MCPTool dict"
  categories :: "string list dict"

definition empty_registry :: "'s ToolRegistry" where
  "empty_registry = \<lparr>tools = [], categories = []\<rparr>"

text \<open>
  In \<^verbatim>\<open>register\<close> the category is a key of \<^verbatim>\<open>_categories\<close> once the first \<^verbatim>\<open>if\<close> has run, so
  the subscript of the second \<^verbatim>\<open>if\<close> finds it.
\<close>

definition register :: "'s ToolRegistry \<Rightarrow> 's MCPTool \<Rightarrow> 's ToolRegistry" where
  "register self tool =
     (let tool_name = meta_name (metadata tool);
          tool_category = category (metadata tool);
          tools1 = AList.update tool_name tool (tools self);
          cats1 = (if map_of (categories self) tool_category = None
                   then AList.update tool_category [] (categories self) else categories self);
          cats2 = (case map_of cats1 tool_category of
                     None \<Rightarrow> cats1
                   | Some names \<Rightarrow>
                       if tool_name \<notin> set names
                       then AList.update tool_category (names @ [tool_name]) cats1 else cats1)
      in \<lparr>tools = tools1, categories = cats2\<rparr>)"

definition get_tool :: "'s ToolRegistry \<Rightarrow> string \<Rightarrow> 's MCPTool option" where
  "get_tool self n = map_of (tools self) n"

text \<open>The list comprehension \<^verbatim>\<open>[self._tools[name] for name in tool_names]\<close>; a subscript with
  a missing key raises \<^verbatim>\<open>KeyError\<close>.\<close>

fun lookup_all :: "'s MCPTool dict \<Rightarrow> string list \<Rightarrow> py_exception + 's MCPTool list" where
  "lookup_all d [] = Inr []"
| "lookup_all d (n # ns) =
     (case map_of d n of
        None \<Rightarrow> Inl (KeyError n)
      | Some t \<Rightarrow> (case lookup_all d ns of Inl e \<Rightarrow> Inl e | Inr ts \<Rightarrow> Inr (t # ts)))"

definition get_tools_by_category ::
  "'s ToolRegistry \<Rightarrow> string \<Rightarrow> py_exception + 's MCPTool list" where
  "get_tools_by_category self c =
     (let tool_names = (case map_of (categories self) c of None \<Rightarrow> [] | Some ns \<Rightarrow> ns)
      in lookup_all (tools self) tool_names)"

definition list_all_tools :: "'s ToolRegistry \<Rightarrow> string list" where
  "list_all_tools self = map fst (tools self)"

definition get_tools_metadata :: "'s ToolRegistry \<Rightarrow> ToolMetadata list" where
  "get_tools_metadata self = map (\<lambda>(n, tool). metadata tool) (tools self)"

section \<open>The validation rule in the specification's words\<close>








section \<open>Tools used as concrete inputs\<close>

text \<open>
  The tool of the scenario in section 8 of the specification: name \<^verbatim>\<open>echo\<close>, category
  \<^verbatim>\<open>test\<close>, one required string parameter \<^verbatim>\<open>text\<close>, no setup, and an \<^verbatim>\<open>execute\<close> that
  returns its argument as the result of a successful envelope.
\<close>

definition echo_tool :: "unit MCPTool" where
  "echo_tool =
     \<lparr>metadata =
        \<lparr>meta_name = ''echo'', meta_description = ''echo'',
         parameters = [\<lparr>param_name = ''text'', param_type = ''string'',
                        param_description = ''text'', param_required = True,
                        param_default = PNone, param_enum = None\<rparr>],
         category = ''test'', version = ''1.0.0'', author = None, tags = []\<rparr>,
      initialized = False,
      self_state = (),
      initialize_hook = (\<lambda>s. (None, s)),
      execute = (\<lambda>s kwargs.
        (Inr \<lparr>success = True, result = dict_get kwargs ''text'', error = None,
              result_metadata = None, execution_time = None, timestamp = 0\<rparr>, s))\<rparr>"




text \<open>
  A tool whose \<^verbatim>\<open>_initialize\<close> raises \<^verbatim>\<open>ValueError\<close>, as the search tools of
  \<^verbatim>\<open>app/mcp/tools/web_search.py\<close> do while their keys are not configured. Its state is the
  number of setups that will still fail.
\<close>

definition flaky_tool :: "nat MCPTool" where
  "flaky_tool =
     \<lparr>metadata = metadata echo_tool,
      initialized = False,
      self_state = 1,
      initialize_hook = (\<lambda>k. if k = 0 then (None, 0)
                              else (Some (ValueError ''not configured''), k - 1)),
      execute = (\<lambda>k kwargs.
        (Inr \<lparr>success = True, result = dict_get kwargs ''text'', error = None,
              result_metadata = None, execution_time = None, timestamp = 0\<rparr>, k))\<rparr>"

text \<open>
  The tool \<^verbatim>\<open>echo\<close> with an \<^verbatim>\<open>execute\<close> that raises, and the tool \<^verbatim>\<open>echo\<close> whose parameter
  \<^verbatim>\<open>text\<close> has an \<^verbatim>\<open>enum\<close> that allows only \<^verbatim>\<open>"bye"\<close>.
\<close>

definition broken_tool :: "unit MCPTool" where
  "broken_tool =
     echo_tool\<lparr>execute := (\<lambda>s kwargs. (Inl (Raised ''RuntimeError'' ''boom''), ()))\<rparr>"

definition picky_tool :: "unit MCPTool" where
  "picky_tool =
     echo_tool\<lparr>metadata := (metadata echo_tool)
       \<lparr>parameters := [\<lparr>param_name = ''text'', param_type = ''string'',
                         param_description = ''text'', param_required = True,
                         param_default = PNone, param_enum = Some [PStr ''bye'']\<rparr>]\<rparr>\<rparr>"

text \<open>The tool \<^verbatim>\<open>echo\<close> again, under the category \<^verbatim>\<open>other\<close>.\<close>

definition echo_other :: "unit MCPTool" where
  "echo_other = echo_tool\<lparr>metadata := (metadata echo_tool)\<lparr>category := ''other''\<rparr>\<rparr>"

text \<open>
  A tool with three parameter descriptors: one whose \<^verbatim>\<open>enum\<close> is the empty list, and two
  that share the name \<^verbatim>\<open>text\<close>.
\<close>

definition mode_param :: ToolParameter where
  "mode_param = \<lparr>param_name = ''mode'', param_type = ''string'', param_description = ''mode'',
                  param_required = False, param_default = PNone, param_enum = Some []\<rparr>"

definition text_param :: "string \<Rightarrow> ToolParameter" where
  "text_param ty = \<lparr>param_name = ''text'', param_type = ty, param_description = ''text'',
                     param_required = True, param_default = PNone, param_enum = None\<rparr>"

definition schema_tool :: "unit MCPTool" where
  "schema_tool =
     echo_tool\<lparr>metadata := (metadata echo_tool)
       \<lparr>parameters := [mode_param, text_param ''string'', text_param ''integer'']\<rparr>\<rparr>"

section \<open>Properties of \<^verbatim>\<open>validate_parameters\<close>\<close>




lemma dict_get_update: "dict_get (AList.update n v kw) k = (if k = n then v else dict_get kw k)"
  by (simp add: dict_get_def update_conv')


lemma validate_loop_cong:
  "(\<And>p. p \<in> set ps \<Longrightarrow> dict_get kw (param_name p) = dict_get kw' (param_name p))
     \<Longrightarrow> validate_loop f kw ps acc = validate_loop f kw' ps acc"
proof (induction ps arbitrary: acc)
  case Nil
  show ?case by simp
next
  case (Cons p ps)
  have here: "dict_get kw (param_name p) = dict_get kw' (param_name p)"
    using Cons.prems by simp
  have rest: "\<And>acc. validate_loop f kw ps acc = validate_loop f kw' ps acc"
    using Cons.IH Cons.prems by simp
  show ?case by (simp add: here rest Let_def)
qed

lemma validate_loop_keys:
  "validate_loop f kw ps acc = Inr out
     \<Longrightarrow> set (map fst out) \<subseteq> set (map fst acc) \<union> set (map param_name ps)"
proof (induction ps arbitrary: acc)
  case Nil
  then show ?case by simp
next
  case (Cons p ps)
  from Cons.prems consider
      (placed) val where "validate_loop f kw ps (AList.update (param_name p) val acc) = Inr out"
    | (omitted) "validate_loop f kw ps acc = Inr out"
    by (simp add: Let_def split: if_splits)
  then show ?case
  proof cases
    case placed
    from Cons.IH [OF this] show ?thesis by (auto simp: dom_update)
  next
    case omitted
    from Cons.IH [OF this] show ?thesis by auto
  qed
qed

lemma call_validate_parameters_bound:
  "map_of d ''self'' = None
     \<Longrightarrow> call_validate_parameters py_str self d = validate_parameters py_str self d"
  by (simp add: call_validate_parameters_def bind_kwargs_def)

lemma call_validate_parameters_clash:
  "map_of d ''self'' \<noteq> None
     \<Longrightarrow> call_validate_parameters py_str self d = Inl (TypeError ''validate_parameters'')"
  by (auto simp: call_validate_parameters_def bind_kwargs_def)

lemma call_safe_execute_bound:
  "map_of d ''self'' = None
     \<Longrightarrow> call_safe_execute py_str now self d = safe_execute py_str now self d"
  by (simp add: call_safe_execute_def bind_kwargs_def)

lemma call_safe_execute_clash:
  "map_of d ''self'' \<noteq> None
     \<Longrightarrow> call_safe_execute py_str now self d = (Inl (TypeError ''safe_execute''), self)"
  by (auto simp: call_safe_execute_def bind_kwargs_def)






lemma safe_execute_cong:
  "validate_parameters f (snd (initialize t)) kw = validate_parameters f (snd (initialize t)) kw'
     \<Longrightarrow> safe_execute f now t kw = safe_execute f now t kw'"
  by (cases "initialize t") (simp add: safe_execute_def Let_def split: sum.split)

lemma initialize_keeps:
  "metadata (snd (initialize t)) = metadata t"
  "execute (snd (initialize t)) = execute t"
  "initialize_hook (snd (initialize t)) = initialize_hook t"
  by (simp_all add: initialize_def split: prod.splits option.splits)

lemma validate_echo_tool:
  "validate_parameters py_str echo_tool [] = Inl (ValueError (missing_message ''text''))"
  "validate_parameters py_str echo_tool [(''text'', PStr ''hi'')] = Inr [(''text'', PStr ''hi'')]"
  by (simp_all add: validate_parameters_def echo_tool_def dict_get_def enum_truthy_def)

text \<open>
  Claim C10, as amended. An argument under a name that the metadata does not declare and
  that is not \<^verbatim>\<open>self\<close> is dropped silently: adding it changes neither the result of the
  call of \<^verbatim>\<open>validate_parameters\<close> nor that of the call of \<^verbatim>\<open>safe_execute\<close> (so it is
  neither forwarded to \<^verbatim>\<open>execute\<close> nor reported as an error), and every key of a validated
  mapping is a declared parameter name. An argument named \<^verbatim>\<open>self\<close> is not dropped: both
  calls raise \<^verbatim>\<open>TypeError\<close> to the caller.
\<close>

theorem undeclared_dropped:
  assumes "n \<notin> set (map param_name (parameters (metadata self)))" and "n \<noteq> ''self''"
  shows "call_validate_parameters py_str self (AList.update n v d)
           = call_validate_parameters py_str self d
     \<and> call_safe_execute py_str now self (AList.update n v d)
           = call_safe_execute py_str now self d
     \<and> (call_validate_parameters py_str self d' = Inr out \<longrightarrow>
           set (map fst out) \<subseteq> set (map param_name (parameters (metadata self))))
     \<and> (map_of d' ''self'' \<noteq> None \<longrightarrow>
           call_validate_parameters py_str self d' = Inl (TypeError ''validate_parameters'')
           \<and> call_safe_execute py_str now self d' = (Inl (TypeError ''safe_execute''), self))"
proof (intro conjI impI)
  have same: "validate_loop py_str (AList.update n v d) (parameters (metadata self)) []
                = validate_loop py_str d (parameters (metadata self)) []"
    by (rule validate_loop_cong) (use assms(1) in \<open>auto simp: dict_get_update\<close>)
  have key: "map_of (AList.update n v d) ''self'' = map_of d ''self''"
    using assms(2) by (simp add: update_conv')
  show "call_validate_parameters py_str self (AList.update n v d)
           = call_validate_parameters py_str self d"
    by (simp add: call_validate_parameters_def bind_kwargs_def key validate_parameters_def same)
  have "safe_execute py_str now self (AList.update n v d) = safe_execute py_str now self d"
    by (rule safe_execute_cong) (simp add: validate_parameters_def initialize_keeps same)
  then show "call_safe_execute py_str now self (AList.update n v d)
           = call_safe_execute py_str now self d"
    by (simp add: call_safe_execute_def bind_kwargs_def key)
  { assume "call_validate_parameters py_str self d' = Inr out"
    then have "validate_loop py_str d' (parameters (metadata self)) [] = Inr out"
      by (simp add: call_validate_parameters_def bind_kwargs_def validate_parameters_def
            split: if_splits)
    from validate_loop_keys [OF this]
    show "set (map fst out) \<subseteq> set (map param_name (parameters (metadata self)))"
      by simp }
  { assume c: "map_of d' ''self'' \<noteq> None"
    show "call_validate_parameters py_str self d' = Inl (TypeError ''validate_parameters'')"
      by (rule call_validate_parameters_clash [OF c])
    show "call_safe_execute py_str now self d' = (Inl (TypeError ''safe_execute''), self)"
      by (rule call_safe_execute_clash [OF c]) }
qed

theorem undeclared_dropped_witness:
  "call_validate_parameters (\<lambda>v. []) echo_tool [(''text'', PStr ''hi''), (''extra'', PInt 1)]
     = Inr [(''text'', PStr ''hi'')]
   \<and> call_safe_execute (\<lambda>v. []) int echo_tool [(''text'', PStr ''hi''), (''extra'', PInt 1)]
     = call_safe_execute (\<lambda>v. []) int echo_tool [(''text'', PStr ''hi'')]
   \<and> set (map fst [(''text'', PStr ''hi'')])
        \<subseteq> set (map param_name (parameters (metadata echo_tool)))
   \<and> call_validate_parameters (\<lambda>v. []) echo_tool [(''self'', PInt 1)]
        = Inl (TypeError ''validate_parameters'')"
  using undeclared_dropped [where self = echo_tool and n = "''extra''" and v = "PInt 1"
      and d = "[(''text'', PStr ''hi'')]" and d' = "[(''text'', PStr ''hi'')]"
      and out = "[(''text'', PStr ''hi'')]" and py_str = "\<lambda>v. []" and now = int]
    undeclared_dropped [where self = echo_tool and n = "''extra''" and v = "PInt 1"
      and d = "[]" and d' = "[(''self'', PInt 1)]"
      and out = "[]" and py_str = "\<lambda>v. []" and now = int]
  by (simp add: call_validate_parameters_bound validate_echo_tool) (simp add: echo_tool_def)

text \<open>
  Claim C10 as stated fails for the undeclared name \<^verbatim>\<open>self\<close>: with it the calls of
  \<^verbatim>\<open>validate_parameters\<close> and of \<^verbatim>\<open>safe_execute\<close> on \<open>echo_tool\<close> raise \<^verbatim>\<open>TypeError\<close>,
  where the same arguments without it validate.
\<close>

theorem undeclared_self_counterexample:
  "''self'' \<notin> set (map param_name (parameters (metadata echo_tool)))
   \<and> call_validate_parameters (\<lambda>v. []) echo_tool [(''text'', PStr ''hi'')]
       = Inr [(''text'', PStr ''hi'')]
   \<and> call_validate_parameters (\<lambda>v. []) echo_tool [(''text'', PStr ''hi''), (''self'', PInt 1)]
       = Inl (TypeError ''validate_parameters'')
   \<and> fst (call_safe_execute (\<lambda>v. []) int echo_tool [(''text'', PStr ''hi''), (''self'', PInt 1)])
       = Inl (TypeError ''safe_execute'')"
  by (simp add: call_validate_parameters_def call_safe_execute_def bind_kwargs_def
        validate_echo_tool) (simp add: echo_tool_def)

section \<open>Properties of \<^verbatim>\<open>initialize\<close> and \<^verbatim>\<open>safe_execute\<close>\<close>

lemma initialize_cases:
  obtains (already_set) "initialized t" "initialize t = (Inr True, t)"
  | (set_up) s' where "\<not> initialized t" "initialize_hook t (self_state t) = (None, s')"
      "initialize t = (Inr True, t\<lparr>self_state := s', initialized := True\<rparr>)"
  | (set_up_failed) e s' where "\<not> initialized t" "initialize_hook t (self_state t) = (Some e, s')"
      "initialize t = (Inr False, t\<lparr>self_state := s'\<rparr>)"
proof (cases "initialized t")
  case True
  then show ?thesis using already_set by (simp add: initialize_def)
next
  case False
  obtain r s' where h: "initialize_hook t (self_state t) = (r, s')"
    by (cases "initialize_hook t (self_state t)")
  show ?thesis
  proof (cases r)
    case None
    with False h show ?thesis using set_up by (simp add: initialize_def)
  next
    case (Some e)
    with False h show ?thesis using set_up_failed by (simp add: initialize_def)
  qed
qed

text \<open>
  Claim C4. \<^verbatim>\<open>initialize\<close> raises nothing. On an initialized tool it returns true and
  leaves the tool as it is, without running the setup, and the flag stays set through
  \<^verbatim>\<open>safe_execute\<close>, so it goes from false to true at most once. When the setup raises,
  \<^verbatim>\<open>initialize\<close> returns false and the flag stays false; the next call runs the setup
  again, on the state the failed attempt left, and succeeds or fails with it. When the
  setup succeeds the flag is set and the call returns true.
\<close>

theorem initialize_idempotent_retriable:
  "(\<exists>ok. fst (initialize self) = Inr ok)
   \<and> (initialized self \<longrightarrow>
        initialize self = (Inr True, self)
        \<and> initialized (snd (safe_execute py_str now self kwargs)))
   \<and> (\<not> initialized self \<and> initialize_hook self (self_state self) = (Some e, s1) \<longrightarrow>
        initialize self = (Inr False, self\<lparr>self_state := s1\<rparr>)
        \<and> \<not> initialized (snd (initialize self))
        \<and> (initialize_hook self s1 = (None, s2) \<longrightarrow>
             initialize (snd (initialize self))
               = (Inr True, self\<lparr>self_state := s2, initialized := True\<rparr>))
        \<and> (initialize_hook self s1 = (Some e2, s2) \<longrightarrow>
             initialize (snd (initialize self)) = (Inr False, self\<lparr>self_state := s2\<rparr>)))
   \<and> (\<not> initialized self \<and> initialize_hook self (self_state self) = (None, s1) \<longrightarrow>
        initialize self = (Inr True, self\<lparr>self_state := s1, initialized := True\<rparr>))"
proof (intro conjI impI)
  show "\<exists>ok. fst (initialize self) = Inr ok"
    by (cases self rule: initialize_cases) auto
next
  assume "initialized self"
  then show "initialize self = (Inr True, self)" by (simp add: initialize_def)
next
  assume i: "initialized self"
  then have "initialize self = (Inr True, self)" by (simp add: initialize_def)
  with i show "initialized (snd (safe_execute py_str now self kwargs))"
    by (simp add: safe_execute_def Let_def split: sum.split prod.split)
next
  assume h: "\<not> initialized self \<and> initialize_hook self (self_state self) = (Some e, s1)"
  then show a: "initialize self = (Inr False, self\<lparr>self_state := s1\<rparr>)"
    by (simp add: initialize_def)
  from h show "\<not> initialized (snd (initialize self))" by (simp add: a)
  { assume "initialize_hook self s1 = (None, s2)"
    with h show "initialize (snd (initialize self))
               = (Inr True, self\<lparr>self_state := s2, initialized := True\<rparr>)"
      by (simp add: a) (simp add: initialize_def) }
  { assume "initialize_hook self s1 = (Some e2, s2)"
    with h show "initialize (snd (initialize self)) = (Inr False, self\<lparr>self_state := s2\<rparr>)"
      by (simp add: a) (simp add: initialize_def) }
next
  assume "\<not> initialized self \<and> initialize_hook self (self_state self) = (None, s1)"
  then show "initialize self = (Inr True, self\<lparr>self_state := s1, initialized := True\<rparr>)"
    by (simp add: initialize_def)
qed

theorem initialize_idempotent_retriable_witness:
  "initialize flaky_tool = (Inr False, flaky_tool\<lparr>self_state := 0\<rparr>)
   \<and> \<not> initialized (snd (initialize flaky_tool))
   \<and> initialize (snd (initialize flaky_tool))
       = (Inr True, flaky_tool\<lparr>self_state := 0, initialized := True\<rparr>)
   \<and> initialize (flaky_tool\<lparr>self_state := 0, initialized := True\<rparr>)
       = (Inr True, flaky_tool\<lparr>self_state := 0, initialized := True\<rparr>)
   \<and> initialized (snd (safe_execute (\<lambda>v. []) int
         (flaky_tool\<lparr>self_state := 0, initialized := True\<rparr>) []))
   \<and> initialize (flaky_tool\<lparr>self_state := 2\<rparr>) = (Inr False, flaky_tool\<lparr>self_state := 1\<rparr>)
   \<and> initialize (snd (initialize (flaky_tool\<lparr>self_state := 2\<rparr>)))
       = (Inr False, flaky_tool\<lparr>self_state := 0\<rparr>)
   \<and> initialize (flaky_tool\<lparr>self_state := 0\<rparr>)
       = (Inr True, flaky_tool\<lparr>self_state := 0, initialized := True\<rparr>)"
  using
    initialize_idempotent_retriable [where self = flaky_tool
      and e = "ValueError ''not configured''" and ?s1.0 = 0 and ?s2.0 = 0]
    initialize_idempotent_retriable
      [where self = "flaky_tool\<lparr>self_state := 0, initialized := True\<rparr>"
        and py_str = "\<lambda>v. []" and now = int and kwargs = "[]"]
    initialize_idempotent_retriable [where self = "flaky_tool\<lparr>self_state := 2\<rparr>"
      and e = "ValueError ''not configured''" and ?s1.0 = 1 and ?s2.0 = 0
      and ?e2.0 = "ValueError ''not configured''"]
    initialize_idempotent_retriable [where self = "flaky_tool\<lparr>self_state := 0\<rparr>"
      and ?s1.0 = 0]
  by (simp add: flaky_tool_def)

lemma safe_execute_init_failed:
  assumes "initialize self = (Inr False, self1)"
  shows "safe_execute py_str now self kwargs =
     (Inr \<lparr>success = False, result = PNone, error = Some init_failed_message,
           result_metadata = None, execution_time = None, timestamp = now 1\<rparr>, self1)"
  using assms by (simp add: safe_execute_def)

lemma safe_execute_invalid:
  assumes "initialize self = (Inr True, self1)"
    and "validate_parameters py_str self kwargs = Inl e"
  shows "safe_execute py_str now self kwargs = (Inr (handler now (now 0) e), self1)"
proof -
  have "metadata self1 = metadata self"
    using initialize_keeps(1) [of self] assms(1) by simp
  then have "validate_parameters py_str self1 kwargs = Inl e"
    using assms(2) by (simp add: validate_parameters_def)
  then show ?thesis using assms(1) by (simp add: safe_execute_def)
qed

lemma safe_execute_run:
  assumes "initialize self = (Inr True, self1)"
    and "validate_parameters py_str self kwargs = Inr validated"
    and "execute self (self_state self1) validated = (r, s')"
  shows "safe_execute py_str now self kwargs =
     (case r of
        Inl e \<Rightarrow> (Inr (handler now (now 0) e), self1\<lparr>self_state := s'\<rparr>)
      | Inr res \<Rightarrow> (Inr (res\<lparr>execution_time := Some (total_seconds (now 1 - now 0))\<rparr>),
                    self1\<lparr>self_state := s'\<rparr>))"
proof -
  have m: "metadata self1 = metadata self" and x: "execute self1 = execute self"
    using initialize_keeps(1,2) [of self] assms(1) by simp_all
  have "validate_parameters py_str self1 kwargs = Inr validated"
    using assms(2) m by (simp add: validate_parameters_def)
  then show ?thesis using assms(1,3) x by (simp add: safe_execute_def split: sum.split)
qed

lemma handler_fields:
  "success (handler now t0 e) = False"
  "error (handler now t0 e) = Some (str_of e)"
  "execution_time (handler now t0 e) = Some (total_seconds (now 1 - t0))"
  by (simp_all add: handler_def)

lemma safe_execute_envelope:
  "(\<exists>env. fst (safe_execute py_str now self kwargs) = Inr env)
   \<and> (\<not> initialized self \<and> fst (initialize_hook self (self_state self)) = Some e \<longrightarrow>
        (\<exists>env. fst (safe_execute py_str now self kwargs) = Inr env
           \<and> \<not> success env \<and> error env = Some init_failed_message))
   \<and> (fst (initialize self) = Inr True \<and> validate_parameters py_str self kwargs = Inl e \<longrightarrow>
        (\<exists>env. fst (safe_execute py_str now self kwargs) = Inr env
           \<and> \<not> success env \<and> error env = Some (str_of e)))
   \<and> (fst (initialize self) = Inr True
        \<and> validate_parameters py_str self kwargs = Inr validated
        \<and> fst (execute self (self_state (snd (initialize self))) validated) = Inl e \<longrightarrow>
        (\<exists>env. fst (safe_execute py_str now self kwargs) = Inr env
           \<and> \<not> success env \<and> error env = Some (str_of e)))"
proof (intro conjI impI)
  show "\<exists>env. fst (safe_execute py_str now self kwargs) = Inr env"
  proof (cases self rule: initialize_cases)
    case set_up_failed
    then show ?thesis by (simp add: safe_execute_init_failed)
  next
    case already_set
    show ?thesis
      using already_set(2)
      by (simp add: safe_execute_def Let_def split: sum.split prod.split)
  next
    case set_up
    show ?thesis
      using set_up(3)
      by (simp add: safe_execute_def Let_def split: sum.split prod.split)
  qed
next
  assume "\<not> initialized self \<and> fst (initialize_hook self (self_state self)) = Some e"
  then have "initialize self = (Inr False, snd (initialize self))"
    by (cases "initialize_hook self (self_state self)") (simp add: initialize_def)
  from safe_execute_init_failed [OF this]
  show "\<exists>env. fst (safe_execute py_str now self kwargs) = Inr env
           \<and> \<not> success env \<and> error env = Some init_failed_message"
    by simp
next
  assume "fst (initialize self) = Inr True \<and> validate_parameters py_str self kwargs = Inl e"
  then have "initialize self = (Inr True, snd (initialize self))"
    and "validate_parameters py_str self kwargs = Inl e"
    by (simp_all add: prod_eq_iff)
  from safe_execute_invalid [OF this]
  show "\<exists>env. fst (safe_execute py_str now self kwargs) = Inr env
           \<and> \<not> success env \<and> error env = Some (str_of e)"
    by (simp add: handler_fields)
next
  assume h: "fst (initialize self) = Inr True
        \<and> validate_parameters py_str self kwargs = Inr validated
        \<and> fst (execute self (self_state (snd (initialize self))) validated) = Inl e"
  then have "initialize self = (Inr True, snd (initialize self))"
    and "validate_parameters py_str self kwargs = Inr validated"
    and "execute self (self_state (snd (initialize self))) validated
          = (Inl e, snd (execute self (self_state (snd (initialize self))) validated))"
    by (simp_all add: prod_eq_iff)
  from safe_execute_run [OF this]
  show "\<exists>env. fst (safe_execute py_str now self kwargs) = Inr env
           \<and> \<not> success env \<and> error env = Some (str_of e)"
    by (simp add: handler_fields)
qed

lemma initialize_echo_tool:
  "initialize echo_tool = (Inr True, echo_tool\<lparr>initialized := True\<rparr>)"
  by (simp add: initialize_def echo_tool_def)

lemma initialize_flaky_tool:
  "initialize flaky_tool = (Inr False, flaky_tool\<lparr>self_state := 0\<rparr>)"
  by (simp add: initialize_def flaky_tool_def)

text \<open>
  Claim C1, as amended. A call of \<^verbatim>\<open>safe_execute\<close> whose arguments do not have the name
  \<^verbatim>\<open>self\<close> always returns an envelope and raises nothing; with an argument named
  \<^verbatim>\<open>self\<close> the call raises \<^verbatim>\<open>TypeError\<close> to the caller and leaves the tool as it is. In
  the first case, an exception raised by \<^verbatim>\<open>validate_parameters\<close> or by \<^verbatim>\<open>execute\<close> gives an
  envelope with \<^verbatim>\<open>success=false\<close> whose \<^verbatim>\<open>error\<close> is the exception's message, and an
  exception raised by the setup is caught inside \<^verbatim>\<open>initialize\<close>, the envelope having
  \<^verbatim>\<open>success=false\<close> with the fixed \<^verbatim>\<open>error\<close> text of a failed initialization, not the
  exception's message.
\<close>

theorem safe_execute_catches:
  "(map_of d ''self'' = None \<longrightarrow>
      (\<exists>env. fst (call_safe_execute py_str now self d) = Inr env))
   \<and> (map_of d ''self'' \<noteq> None \<longrightarrow>
      call_safe_execute py_str now self d = (Inl (TypeError ''safe_execute''), self))
   \<and> (map_of d ''self'' = None \<and> \<not> initialized self
        \<and> fst (initialize_hook self (self_state self)) = Some e \<longrightarrow>
        (\<exists>env. fst (call_safe_execute py_str now self d) = Inr env
           \<and> \<not> success env \<and> error env = Some init_failed_message))
   \<and> (map_of d ''self'' = None \<and> fst (initialize self) = Inr True
        \<and> validate_parameters py_str self d = Inl e \<longrightarrow>
        (\<exists>env. fst (call_safe_execute py_str now self d) = Inr env
           \<and> \<not> success env \<and> error env = Some (str_of e)))
   \<and> (map_of d ''self'' = None \<and> fst (initialize self) = Inr True
        \<and> validate_parameters py_str self d = Inr validated
        \<and> fst (execute self (self_state (snd (initialize self))) validated) = Inl e \<longrightarrow>
        (\<exists>env. fst (call_safe_execute py_str now self d) = Inr env
           \<and> \<not> success env \<and> error env = Some (str_of e)))"
  using safe_execute_envelope [of py_str now self d e validated]
  by (auto simp: call_safe_execute_bound call_safe_execute_clash)

lemma initialize_unit_tools:
  "initialize broken_tool = (Inr True, broken_tool\<lparr>initialized := True\<rparr>)"
  "initialize picky_tool = (Inr True, picky_tool\<lparr>initialized := True\<rparr>)"
  by (simp_all add: initialize_def broken_tool_def picky_tool_def echo_tool_def)

lemma validate_unit_tools:
  "validate_parameters py_str broken_tool [(''text'', PStr ''hi'')] = Inr [(''text'', PStr ''hi'')]"
  "validate_parameters py_str picky_tool [(''text'', PStr ''hi'')]
     = Inl (ValueError (enum_message py_str ''text'' [PStr ''bye'']))"
  by (simp_all add: validate_parameters_def broken_tool_def picky_tool_def echo_tool_def
        dict_get_def enum_truthy_def)

theorem safe_execute_catches_witness:
  "(\<exists>env. fst (call_safe_execute (\<lambda>v. []) int flaky_tool []) = Inr env
      \<and> \<not> success env \<and> error env = Some init_failed_message)
   \<and> (\<exists>env. fst (call_safe_execute (\<lambda>v. []) int echo_tool []) = Inr env
      \<and> \<not> success env \<and> error env = Some (missing_message ''text''))
   \<and> (\<exists>env. fst (call_safe_execute (\<lambda>v. []) int broken_tool [(''text'', PStr ''hi'')]) = Inr env
      \<and> \<not> success env \<and> error env = Some ''boom'')
   \<and> call_safe_execute (\<lambda>v. []) int echo_tool [(''self'', PInt 1)]
       = (Inl (TypeError ''safe_execute''), echo_tool)"
proof (intro conjI)
  show "\<exists>env. fst (call_safe_execute (\<lambda>v. []) int flaky_tool []) = Inr env
      \<and> \<not> success env \<and> error env = Some init_failed_message"
    using safe_execute_catches [where self = flaky_tool and e = "ValueError ''not configured''"
        and py_str = "\<lambda>v. []" and now = int and d = "[]"]
    by (simp add: flaky_tool_def)
next
  show "\<exists>env. fst (call_safe_execute (\<lambda>v. []) int echo_tool []) = Inr env
      \<and> \<not> success env \<and> error env = Some (missing_message ''text'')"
    using safe_execute_catches [where self = echo_tool
        and e = "ValueError (missing_message ''text'')"
        and py_str = "\<lambda>v. []" and now = int and d = "[]"]
    by (simp add: initialize_echo_tool validate_echo_tool ValueError_def)
next
  show "\<exists>env. fst (call_safe_execute (\<lambda>v. []) int broken_tool [(''text'', PStr ''hi'')]) = Inr env
      \<and> \<not> success env \<and> error env = Some ''boom''"
    using safe_execute_catches [where self = broken_tool
        and e = "Raised ''RuntimeError'' ''boom''"
        and py_str = "\<lambda>v. []" and now = int and d = "[(''text'', PStr ''hi'')]"
        and validated = "[(''text'', PStr ''hi'')]"]
    by (simp add: initialize_unit_tools validate_unit_tools) (simp add: broken_tool_def)
next
  show "call_safe_execute (\<lambda>v. []) int echo_tool [(''self'', PInt 1)]
       = (Inl (TypeError ''safe_execute''), echo_tool)"
    using safe_execute_catches [where self = echo_tool and py_str = "\<lambda>v. []" and now = int
        and d = "[(''self'', PInt 1)]"]
    by simp
qed

text \<open>
  Claim C1 as stated fails twice: the setup of \<open>flaky_tool\<close> raises \<^verbatim>\<open>ValueError\<close> with
  the message \<^verbatim>\<open>not configured\<close> and the \<^verbatim>\<open>error\<close> of the envelope is the fixed text
  instead; and the call with an argument named \<^verbatim>\<open>self\<close> raises \<^verbatim>\<open>TypeError\<close>.
\<close>

theorem init_failure_message_counterexample:
  "fst (initialize_hook flaky_tool (self_state flaky_tool)) = Some (ValueError ''not configured'')
   \<and> fst (call_safe_execute (\<lambda>v. []) int flaky_tool [])
       = Inr \<lparr>success = False, result = PNone, error = Some init_failed_message,
              result_metadata = None, execution_time = None, timestamp = 1\<rparr>
   \<and> init_failed_message \<noteq> str_of (ValueError ''not configured'')
   \<and> fst (call_safe_execute (\<lambda>v. []) int echo_tool [(''self'', PInt 1)])
       = Inl (TypeError ''safe_execute'')"
  by (simp add: call_safe_execute_def bind_kwargs_def
        safe_execute_init_failed [OF initialize_flaky_tool] init_failed_message_def
        ValueError_def) (simp add: flaky_tool_def ValueError_def)

text \<open>
  Claim C2 at a tool whose setup fails: the envelope that \<^verbatim>\<open>safe_execute\<close> returns has no
  \<^verbatim>\<open>execution_time\<close>, whatever the clock and the arguments, while the envelope that the
  \<^verbatim>\<open>except\<close> clause builds for a raised exception carries the elapsed time.
\<close>

theorem init_failure_leaves_execution_time_unset:
  "fst (safe_execute py_str now flaky_tool kwargs)
     = Inr \<lparr>success = False, result = PNone, error = Some init_failed_message,
            result_metadata = None, execution_time = None, timestamp = now 1\<rparr>
   \<and> execution_time (handler now (now 0) e) = Some (total_seconds (now 1 - now 0))"
  by (simp add: safe_execute_init_failed [OF initialize_flaky_tool] handler_fields)

text \<open>
  Claim C7, as amended. Take a tool whose only parameter is required and named \<^verbatim>\<open>text\<close>
  and whose initialization succeeds. The call of \<^verbatim>\<open>safe_execute\<close> with no arguments returns
  an envelope with \<^verbatim>\<open>success=false\<close> whose \<^verbatim>\<open>error\<close> is the code's own message, the text
  of \<open>missing_message\<close> followed by \<^verbatim>\<open>text\<close>. With \<^verbatim>\<open>text="hi"\<close>, when the parameter has
  no non-empty \<^verbatim>\<open>enum\<close> or its \<^verbatim>\<open>enum\<close> has \<^verbatim>\<open>"hi"\<close>, and \<^verbatim>\<open>execute\<close> succeeds with the
  result \<^verbatim>\<open>"hi"\<close>, the envelope has \<^verbatim>\<open>success=true\<close>, the result \<^verbatim>\<open>"hi"\<close> and as
  \<^verbatim>\<open>execution_time\<close> the difference of the two clock readings in seconds, which is not
  negative when the wall clock did not go back between them and negative when it did.
\<close>

theorem echo_scenario:
  assumes "parameters (metadata self) = [p]" and "param_name p = ''text''"
    and "param_required p" and "fst (initialize self) = Inr True"
  shows "(\<exists>env. fst (call_safe_execute py_str now self []) = Inr env
            \<and> \<not> success env \<and> error env = Some (missing_message ''text''))
     \<and> ((\<not> enum_truthy (param_enum p) \<or> py_in (PStr ''hi'') (enum_values (param_enum p)))
          \<and> fst (execute self (self_state (snd (initialize self))) [(''text'', PStr ''hi'')])
              = Inr res
          \<and> success res \<and> result res = PStr ''hi'' \<longrightarrow>
        (\<exists>env. fst (call_safe_execute py_str now self [(''text'', PStr ''hi'')]) = Inr env
            \<and> success env \<and> result env = PStr ''hi''
            \<and> execution_time env = Some (total_seconds (now 1 - now 0))
            \<and> (now 0 \<le> now 1 \<longrightarrow> 0 \<le> total_seconds (now 1 - now 0))
            \<and> (now 1 < now 0 \<longrightarrow> total_seconds (now 1 - now 0) < 0)))"
proof (intro conjI impI)
  have i: "initialize self = (Inr True, snd (initialize self))"
    using assms(4) by (simp add: prod_eq_iff)
  have v0: "validate_parameters py_str self [] = Inl (ValueError (missing_message ''text''))"
    by (simp add: validate_parameters_def assms(1,2,3) dict_get_def)
  show "\<exists>env. fst (call_safe_execute py_str now self []) = Inr env
            \<and> \<not> success env \<and> error env = Some (missing_message ''text'')"
    by (simp add: call_safe_execute_bound safe_execute_invalid [OF i v0] handler_fields
          ValueError_def)
  assume h: "(\<not> enum_truthy (param_enum p) \<or> py_in (PStr ''hi'') (enum_values (param_enum p)))
          \<and> fst (execute self (self_state (snd (initialize self))) [(''text'', PStr ''hi'')])
              = Inr res
          \<and> success res \<and> result res = PStr ''hi''"
  have v1: "validate_parameters py_str self [(''text'', PStr ''hi'')]
              = Inr [(''text'', PStr ''hi'')]"
    using h by (auto simp: validate_parameters_def assms(1,2,3) dict_get_def)
  have x: "execute self (self_state (snd (initialize self))) [(''text'', PStr ''hi'')]
            = (Inr res, snd (execute self (self_state (snd (initialize self)))
                 [(''text'', PStr ''hi'')]))"
    using h by (simp add: prod_eq_iff)
  show "\<exists>env. fst (call_safe_execute py_str now self [(''text'', PStr ''hi'')]) = Inr env
            \<and> success env \<and> result env = PStr ''hi''
            \<and> execution_time env = Some (total_seconds (now 1 - now 0))
            \<and> (now 0 \<le> now 1 \<longrightarrow> 0 \<le> total_seconds (now 1 - now 0))
            \<and> (now 1 < now 0 \<longrightarrow> total_seconds (now 1 - now 0) < 0)"
    using h
    by (simp add: call_safe_execute_bound safe_execute_run [OF i v1 x] total_seconds_def)
qed

theorem echo_scenario_witness:
  "(\<exists>env. fst (call_safe_execute (\<lambda>v. []) int echo_tool []) = Inr env
       \<and> \<not> success env \<and> error env = Some (missing_message ''text''))
   \<and> (\<exists>env. fst (call_safe_execute (\<lambda>v. []) int echo_tool [(''text'', PStr ''hi'')]) = Inr env
       \<and> success env \<and> result env = PStr ''hi''
       \<and> execution_time env = Some (1 / 1000000))"
  using echo_scenario [where self = echo_tool and py_str = "\<lambda>v. []" and now = int
      and p = "\<lparr>param_name = ''text'', param_type = ''string'', param_description = ''text'',
                param_required = True, param_default = PNone, param_enum = None\<rparr>"
      and res = "\<lparr>success = True, result = PStr ''hi'', error = None, result_metadata = None,
                  execution_time = None, timestamp = 0\<rparr>"]
  by (simp add: initialize_echo_tool total_seconds_def enum_truthy_def)
     (simp add: echo_tool_def dict_get_def)

text \<open>
  Claim C7 as stated fails in each of these ways. With no arguments the \<^verbatim>\<open>error\<close> of
  \<open>echo_tool\<close>'s envelope is the code's message, which is not the string
  \<^verbatim>\<open>missing parameter: text\<close>. When the wall clock reads an hour less at the end than at
  the start, \<^verbatim>\<open>execution_time\<close> is minus 3600 seconds. A tool with the same parameter whose
  setup fails reports the failed initialization, not the missing parameter. A tool whose
  \<^verbatim>\<open>enum\<close> excludes \<^verbatim>\<open>"hi"\<close>, and a tool whose \<^verbatim>\<open>execute\<close> raises, return
  \<^verbatim>\<open>success=false\<close> for \<^verbatim>\<open>text="hi"\<close>.
\<close>

theorem missing_text_message_counterexample:
  "fst (call_safe_execute (\<lambda>v. []) int echo_tool [])
     = Inr \<lparr>success = False, result = PNone, error = Some (missing_message ''text''),
            result_metadata = None, execution_time = Some (1 / 1000000), timestamp = 2\<rparr>
   \<and> missing_message ''text'' \<noteq> ''missing parameter: text''
   \<and> fst (call_safe_execute (\<lambda>v. []) (\<lambda>i. if i = 0 then 3600000000 else 0) echo_tool
            [(''text'', PStr ''hi'')])
     = Inr \<lparr>success = True, result = PStr ''hi'', error = None, result_metadata = None,
            execution_time = Some (- 3600), timestamp = 0\<rparr>
   \<and> parameters (metadata flaky_tool) = parameters (metadata echo_tool)
   \<and> fst (call_safe_execute (\<lambda>v. []) int flaky_tool [])
     = Inr \<lparr>success = False, result = PNone, error = Some init_failed_message,
            result_metadata = None, execution_time = None, timestamp = 1\<rparr>
   \<and> init_failed_message \<noteq> missing_message ''text''
   \<and> fst (call_safe_execute (\<lambda>v. []) int picky_tool [(''text'', PStr ''hi'')])
     = Inr \<lparr>success = False, result = PNone,
            error = Some (enum_message (\<lambda>v. []) ''text'' [PStr ''bye'']),
            result_metadata = None, execution_time = Some (1 / 1000000), timestamp = 2\<rparr>
   \<and> parameters (metadata broken_tool) = parameters (metadata echo_tool)
   \<and> fst (call_safe_execute (\<lambda>v. []) int broken_tool [(''text'', PStr ''hi'')])
     = Inr \<lparr>success = False, result = PNone, error = Some ''boom'',
            result_metadata = None, execution_time = Some (1 / 1000000), timestamp = 2\<rparr>"
proof (intro conjI)
  show "fst (call_safe_execute (\<lambda>v. []) int echo_tool [])
     = Inr \<lparr>success = False, result = PNone, error = Some (missing_message ''text''),
            result_metadata = None, execution_time = Some (1 / 1000000), timestamp = 2\<rparr>"
    by (simp add: call_safe_execute_bound
          safe_execute_invalid [OF initialize_echo_tool validate_echo_tool(1)]
          handler_def total_seconds_def ValueError_def)
  show "missing_message ''text'' \<noteq> ''missing parameter: text''"
    by (simp add: missing_message_def)
  have x: "execute echo_tool (self_state (echo_tool\<lparr>initialized := True\<rparr>))
             [(''text'', PStr ''hi'')]
           = (Inr \<lparr>success = True, result = PStr ''hi'', error = None, result_metadata = None,
                   execution_time = None, timestamp = 0\<rparr>, ())"
    by (simp add: echo_tool_def dict_get_def)
  show "fst (call_safe_execute (\<lambda>v. []) (\<lambda>i. if i = 0 then 3600000000 else 0) echo_tool
            [(''text'', PStr ''hi'')])
     = Inr \<lparr>success = True, result = PStr ''hi'', error = None, result_metadata = None,
            execution_time = Some (- 3600), timestamp = 0\<rparr>"
    by (simp add: call_safe_execute_bound
          safe_execute_run [OF initialize_echo_tool validate_echo_tool(2) x] total_seconds_def)
  show "parameters (metadata flaky_tool) = parameters (metadata echo_tool)"
    by (simp add: flaky_tool_def)
  show "fst (call_safe_execute (\<lambda>v. []) int flaky_tool [])
     = Inr \<lparr>success = False, result = PNone, error = Some init_failed_message,
            result_metadata = None, execution_time = None, timestamp = 1\<rparr>"
    by (simp add: call_safe_execute_bound safe_execute_init_failed [OF initialize_flaky_tool])
  show "init_failed_message \<noteq> missing_message ''text''"
    by (simp add: init_failed_message_def missing_message_def)
  show "fst (call_safe_execute (\<lambda>v. []) int picky_tool [(''text'', PStr ''hi'')])
     = Inr \<lparr>success = False, result = PNone,
            error = Some (enum_message (\<lambda>v. []) ''text'' [PStr ''bye'']),
            result_metadata = None, execution_time = Some (1 / 1000000), timestamp = 2\<rparr>"
    by (simp add: call_safe_execute_bound
          safe_execute_invalid [OF initialize_unit_tools(2) validate_unit_tools(2)]
          handler_def total_seconds_def ValueError_def)
  show "parameters (metadata broken_tool) = parameters (metadata echo_tool)"
    by (simp add: broken_tool_def)
  have y: "execute broken_tool (self_state (broken_tool\<lparr>initialized := True\<rparr>))
             [(''text'', PStr ''hi'')]
           = (Inl (Raised ''RuntimeError'' ''boom''), ())"
    by (simp add: broken_tool_def)
  show "fst (call_safe_execute (\<lambda>v. []) int broken_tool [(''text'', PStr ''hi'')])
     = Inr \<lparr>success = False, result = PNone, error = Some ''boom'',
            result_metadata = None, execution_time = Some (1 / 1000000), timestamp = 2\<rparr>"
    by (simp add: call_safe_execute_bound
          safe_execute_run [OF initialize_unit_tools(1) validate_unit_tools(1) y]
          handler_def total_seconds_def)
qed

section \<open>Properties of the registry\<close>

lemma echo_metadata:
  "meta_name (metadata echo_tool) = ''echo''" "category (metadata echo_tool) = ''test''"
  "meta_name (metadata echo_other) = ''echo''" "category (metadata echo_other) = ''other''"
  by (simp_all add: echo_other_def echo_tool_def)

lemma echo_registered_twice:
  "register (register empty_registry echo_tool) echo_other
     = \<lparr>tools = [(''echo'', echo_other)],
        categories = [(''test'', [''echo'']), (''other'', [''echo''])]\<rparr>"
  by (simp add: register_def Let_def empty_registry_def echo_metadata)

lemma tools_register:
  "map_of (tools (register r t)) = (map_of (tools r))(meta_name (metadata t) \<mapsto> t)"
  by (simp add: register_def Let_def update_conv')

lemma distinct_tools_register:
  "distinct (map fst (tools r)) \<Longrightarrow> distinct (map fst (tools (register r t)))"
  by (simp add: register_def Let_def distinct_update)

lemma categories_register:
  "map_of (categories (register r t)) c =
     (if c = category (metadata t) then
        (case map_of (categories r) c of
           None \<Rightarrow> Some [meta_name (metadata t)]
         | Some ns \<Rightarrow> if meta_name (metadata t) \<in> set ns then Some ns
                      else Some (ns @ [meta_name (metadata t)]))
      else map_of (categories r) c)"
  by (cases "map_of (categories r) (category (metadata t))")
     (simp_all add: register_def Let_def update_conv')

lemma register_listed_are_registered:
  assumes "\<And>c ns n. map_of (categories r) c = Some ns \<Longrightarrow> n \<in> set ns
             \<Longrightarrow> map_of (tools r) n \<noteq> None"
    and "map_of (categories (register r t)) c = Some ns" and "n \<in> set ns"
  shows "map_of (tools (register r t)) n \<noteq> None"
proof (cases "n = meta_name (metadata t)")
  case True
  then show ?thesis by (simp add: tools_register)
next
  case False
  have "\<exists>ms. map_of (categories r) c = Some ms \<and> n \<in> set ms"
    using assms(2,3) False
    by (auto simp: categories_register split: if_splits option.splits)
  with assms(1) have "map_of (tools r) n \<noteq> None" by blast
  with False show ?thesis by (simp add: tools_register)
qed

lemma foldl_register_snoc:
  "foldl register r (ts @ [t]) = register (foldl register r ts) t"
  by simp

lemma registered_listed:
  "map_of (categories (foldl register empty_registry ts)) c = Some ns \<Longrightarrow> n \<in> set ns
     \<Longrightarrow> map_of (tools (foldl register empty_registry ts)) n \<noteq> None"
proof (induction ts arbitrary: c ns n rule: rev_induct)
  case Nil
  then show ?case by (simp add: empty_registry_def)
next
  case (snoc t ts)
  show ?case
    unfolding foldl_register_snoc
    by (rule register_listed_are_registered [OF snoc.IH])
       (use snoc.prems in \<open>simp_all\<close>)
qed

lemma registered_distinct:
  "distinct (map fst (tools (foldl register empty_registry ts)))"
  by (induction ts rule: rev_induct) (simp_all add: empty_registry_def distinct_tools_register)

lemma lookup_all_found:
  "(\<And>n. n \<in> set ns \<Longrightarrow> map_of d n \<noteq> None) \<Longrightarrow> \<exists>found. lookup_all d ns = Inr found"
proof (induction ns)
  case Nil
  show ?case by simp
next
  case (Cons n ns)
  obtain t where t: "map_of d n = Some t"
    using Cons.prems [of n] by auto
  obtain found where f: "lookup_all d ns = Inr found"
    using Cons.IH Cons.prems by auto
  show ?case by (simp add: t f)
qed

lemma tools_registered_none:
  "n \<notin> set (map (\<lambda>t. meta_name (metadata t)) ts)
     \<Longrightarrow> map_of (tools (foldl register empty_registry ts)) n = None"
  by (induction ts rule: rev_induct) (simp_all add: empty_registry_def tools_register)

lemma categories_registered_none:
  "c \<notin> set (map (\<lambda>t. category (metadata t)) ts)
     \<Longrightarrow> map_of (categories (foldl register empty_registry ts)) c = None"
  by (induction ts rule: rev_induct) (simp_all add: empty_registry_def categories_register)

lemma register_append_only:
  assumes "map_of (categories q) c = Some ns"
  shows "\<exists>ms. map_of (categories (register q t)) c = Some (ns @ ms)
           \<and> (ms = [] \<or> ms = [meta_name (metadata t)])"
proof (cases "c = category (metadata t) \<and> meta_name (metadata t) \<notin> set ns")
  case True
  with assms have "map_of (categories (register q t)) c = Some (ns @ [meta_name (metadata t)])"
    by (simp add: categories_register)
  then show ?thesis by simp
next
  case False
  with assms have "map_of (categories (register q t)) c = Some (ns @ [])"
    by (auto simp: categories_register)
  then show ?thesis by blast
qed

text \<open>
  Claim C5, as amended. After two tools with the same name are registered, in a registry
  built by registrations, the name index holds the second tool under that name, once; the
  name is listed under the second tool's category and is still listed under the first
  tool's category; every name listed under any category is a registered name, so a lookup
  by category never meets a missing tool. The category index is append-only: every list
  it had before the two registrations is a prefix of the list it has after them, and in
  every registry state one registration leaves each list as it is or adds the registered
  name at its end.
\<close>

theorem reregistration:
  assumes "meta_name (metadata t1) = meta_name (metadata t2)"
    and "r = register (register (foldl register empty_registry ts) t1) t2"
  shows "get_tool r (meta_name (metadata t2)) = Some t2
     \<and> distinct (list_all_tools r)
     \<and> (\<exists>ns. map_of (categories r) (category (metadata t2)) = Some ns
           \<and> meta_name (metadata t2) \<in> set ns)
     \<and> (\<exists>ns. map_of (categories r) (category (metadata t1)) = Some ns
           \<and> meta_name (metadata t2) \<in> set ns)
     \<and> (\<forall>c ns n. map_of (categories r) c = Some ns \<and> n \<in> set ns \<longrightarrow> get_tool r n \<noteq> None)
     \<and> (\<forall>c. \<exists>found. get_tools_by_category r c = Inr found)
     \<and> (\<forall>c ns. map_of (categories (foldl register empty_registry ts)) c = Some ns \<longrightarrow>
           (\<exists>ms. map_of (categories r) c = Some (ns @ ms)))
     \<and> (\<forall>q t c ns. map_of (categories q) c = Some ns \<longrightarrow>
           (\<exists>ms. map_of (categories (register q t)) c = Some (ns @ ms)
              \<and> (ms = [] \<or> ms = [meta_name (metadata t)])))"
proof -
  have r: "r = foldl register empty_registry (ts @ [t1, t2])"
    by (simp add: assms(2))
  have listed: "map_of (tools r) n \<noteq> None" if "map_of (categories r) c = Some ns" "n \<in> set ns"
    for c ns n
    using that registered_listed unfolding r by blast
  have 1: "get_tool r (meta_name (metadata t2)) = Some t2"
    by (simp add: get_tool_def assms(2) tools_register)
  have 2: "distinct (list_all_tools r)"
    unfolding list_all_tools_def r by (rule registered_distinct)
  have 3: "\<exists>ns. map_of (categories r) (category (metadata t2)) = Some ns
           \<and> meta_name (metadata t2) \<in> set ns"
    by (simp add: assms(2) categories_register [of _ t2] split: option.split)
  have 4: "\<exists>ns. map_of (categories r) (category (metadata t1)) = Some ns
           \<and> meta_name (metadata t2) \<in> set ns"
    by (simp add: assms categories_register split: option.split)
  have 5: "\<forall>c ns n. map_of (categories r) c = Some ns \<and> n \<in> set ns \<longrightarrow> get_tool r n \<noteq> None"
    using listed by (auto simp: get_tool_def)
  have 6: "\<forall>c. \<exists>found. get_tools_by_category r c = Inr found"
  proof
    fix c
    show "\<exists>found. get_tools_by_category r c = Inr found"
    proof (cases "map_of (categories r) c")
      case None
      then show ?thesis by (simp add: get_tools_by_category_def)
    next
      case (Some ns)
      have "\<exists>found. lookup_all (tools r) ns = Inr found"
        by (rule lookup_all_found) (rule listed [OF Some])
      with Some show ?thesis by (simp add: get_tools_by_category_def)
    qed
  qed
  have 7: "\<forall>c ns. map_of (categories (foldl register empty_registry ts)) c = Some ns \<longrightarrow>
           (\<exists>ms. map_of (categories r) c = Some (ns @ ms))"
  proof (intro allI impI)
    fix c ns
    assume "map_of (categories (foldl register empty_registry ts)) c = Some ns"
    from register_append_only [OF this, of t1]
    obtain ms1 where
      "map_of (categories (register (foldl register empty_registry ts) t1)) c = Some (ns @ ms1)"
      by blast
    from register_append_only [OF this, of t2]
    obtain ms2 where "map_of (categories r) c = Some ((ns @ ms1) @ ms2)"
      unfolding assms(2) by blast
    then show "\<exists>ms. map_of (categories r) c = Some (ns @ ms)" by simp
  qed
  have 8: "\<forall>q t c ns. map_of (categories q) c = Some ns \<longrightarrow>
           (\<exists>ms. map_of (categories (register q t)) c = Some (ns @ ms)
              \<and> (ms = [] \<or> ms = [meta_name (metadata t)]))"
    using register_append_only by blast
  from 1 2 3 4 5 6 7 8 show ?thesis by blast
qed

theorem reregistration_witness:
  "get_tool (register (register (foldl register empty_registry [echo_tool]) echo_tool) echo_other)
      ''echo'' = Some echo_other
   \<and> (\<exists>ns. map_of (categories
          (register (register (foldl register empty_registry [echo_tool]) echo_tool) echo_other))
          ''other'' = Some ns \<and> ''echo'' \<in> set ns)
   \<and> (\<exists>ns. map_of (categories
          (register (register (foldl register empty_registry [echo_tool]) echo_tool) echo_other))
          ''test'' = Some ns \<and> ''echo'' \<in> set ns)
   \<and> (\<exists>found. get_tools_by_category
          (register (register (foldl register empty_registry [echo_tool]) echo_tool) echo_other)
          ''test'' = Inr found)
   \<and> map_of (categories (foldl register empty_registry [echo_tool])) ''test'' = Some [''echo'']
   \<and> (\<exists>ms. map_of (categories
          (register (register (foldl register empty_registry [echo_tool]) echo_tool) echo_other))
          ''test'' = Some ([''echo''] @ ms))"
proof -
  let ?r = "register (register (foldl register empty_registry [echo_tool]) echo_tool) echo_other"
  note w = reregistration [where ?t1.0 = echo_tool and ?t2.0 = echo_other
      and ts = "[echo_tool]" and r = ?r, simplified echo_metadata, OF refl refl]
  have before: "map_of (categories (foldl register empty_registry [echo_tool])) ''test''
      = Some [''echo'']"
    by (simp add: register_def Let_def empty_registry_def echo_metadata)
  from w have "\<forall>c ns. map_of (categories (foldl register empty_registry [echo_tool])) c = Some ns
      \<longrightarrow> (\<exists>ms. map_of (categories ?r) c = Some (ns @ ms))"
    by blast
  with before have after: "\<exists>ms. map_of (categories ?r) ''test'' = Some ([''echo''] @ ms)"
    by blast
  from w before after show ?thesis by blast
qed

text \<open>
  Claim C5 as stated fails: after \<^verbatim>\<open>echo\<close> is registered under \<^verbatim>\<open>test\<close> and then under
  \<^verbatim>\<open>other\<close>, the category index still lists it under \<^verbatim>\<open>test\<close>, and the lookup by the
  category \<^verbatim>\<open>test\<close> returns the tool whose category is \<^verbatim>\<open>other\<close>.
\<close>

theorem stale_category_counterexample:
  "get_tool (register (register empty_registry echo_tool) echo_other) ''echo'' = Some echo_other
   \<and> category (metadata echo_other) = ''other''
   \<and> categories (register (register empty_registry echo_tool) echo_other)
       = [(''test'', [''echo'']), (''other'', [''echo''])]
   \<and> get_tools_by_category (register (register empty_registry echo_tool) echo_other) ''test''
       = Inr [echo_other]"
  by (simp add: echo_registered_twice get_tool_def get_tools_by_category_def echo_metadata)

text \<open>
  Claim C8. Registry lookups signal absence by an absent value, never by raising: in a
  registry built by registrations, \<^verbatim>\<open>get_tool\<close> on a name that was never registered
  returns \<^verbatim>\<open>None\<close> and \<^verbatim>\<open>get_tools_by_category\<close> on a category that no registered tool
  has returns the empty list; and so they do in every registry state whose index lacks the
  name, or the category.
\<close>

theorem lookups_signal_absence:
  "(n \<notin> set (map (\<lambda>t. meta_name (metadata t)) ts) \<longrightarrow>
      get_tool (foldl register empty_registry ts) n = None)
   \<and> (c \<notin> set (map (\<lambda>t. category (metadata t)) ts) \<longrightarrow>
      get_tools_by_category (foldl register empty_registry ts) c = Inr [])
   \<and> (map_of (tools r) n = None \<longrightarrow> get_tool r n = None)
   \<and> (map_of (categories r) c = None \<longrightarrow> get_tools_by_category r c = Inr [])"
  by (simp add: get_tool_def get_tools_by_category_def tools_registered_none
        categories_registered_none)

theorem lookups_signal_absence_witness:
  "get_tool (foldl register empty_registry [echo_tool, echo_other]) ''nonexistent'' = None
   \<and> get_tools_by_category (foldl register empty_registry [echo_tool, echo_other]) ''nonexistent''
       = Inr []
   \<and> get_tool (empty_registry :: unit ToolRegistry) ''nonexistent'' = None
   \<and> get_tools_by_category (empty_registry :: unit ToolRegistry) ''nonexistent'' = Inr []"
  using lookups_signal_absence [where n = "''nonexistent''" and c = "''nonexistent''"
      and ts = "[echo_tool, echo_other]" and r = "empty_registry :: unit ToolRegistry"]
  by (simp add: echo_metadata) (simp add: empty_registry_def)

section \<open>Properties of the schema exporter\<close>

lemma properties_keys:
  "fst ` set (foldl (\<lambda>d param. AList.update (param_name param) (property_schema param) d)
                acc ps)
     = fst ` set acc \<union> param_name ` set ps"
  by (induction ps arbitrary: acc) (auto simp: dom_update)

lemma properties_distinct:
  "distinct (map fst acc) \<Longrightarrow>
   distinct (map fst (foldl (\<lambda>d param. AList.update (param_name param) (property_schema param) d)
                        acc ps))"
  by (induction ps arbitrary: acc) (simp_all add: distinct_update)

lemma properties_lookup:
  "map_of (foldl (\<lambda>d param. AList.update (param_name param) (property_schema param) d) acc ps)
     = map_of acc ++ map_of (rev (map (\<lambda>p. (param_name p, property_schema p)) ps))"
proof (induction ps arbitrary: acc)
  case Nil
  show ?case by simp
next
  case (Cons p ps)
  show ?case
    by (simp add: Cons.IH update_conv' map_add_upd_left fun_eq_iff map_add_def
          split: option.split)
qed

lemma property_schema_list:
  "property_schema p =
     [(''type'', PStr (param_type p)), (''description'', PStr (param_description p))]
     @ (if enum_truthy (param_enum p) then [(''enum'', PList (enum_values (param_enum p)))]
        else [])
     @ (if param_default p = PNone then [] else [(''default'', param_default p)])"
  by (simp add: property_schema_def Let_def)

text \<open>
  Claim C6, as amended. The schema depends on the metadata only, not on the initialization
  flag or the tool's state. It is an object schema whose properties have one key for each
  distinct parameter name, the entry of a name being that of the last descriptor with the
  name. The entry of a descriptor carries its type and description, the \<^verbatim>\<open>enum\<close> exactly
  when it is a non-empty list and the \<^verbatim>\<open>default\<close> exactly when it is not \<^verbatim>\<open>None\<close>. The
  \<^verbatim>\<open>required\<close> list is the names of the parameters whose \<^verbatim>\<open>required\<close> flag is true, in
  declaration order.
\<close>

theorem schema_export:
  "to_langchain_tool_schema (self\<lparr>initialized := b, self_state := s\<rparr>)
     = to_langchain_tool_schema self
   \<and> schema_type (schema_parameters (to_langchain_tool_schema self)) = ''object''
   \<and> distinct (map fst (properties (schema_parameters (to_langchain_tool_schema self))))
   \<and> set (map fst (properties (schema_parameters (to_langchain_tool_schema self))))
       = set (map param_name (parameters (metadata self)))
   \<and> map_of (properties (schema_parameters (to_langchain_tool_schema self))) n
       = map_of (rev (map (\<lambda>p. (param_name p, property_schema p)) (parameters (metadata self)))) n
   \<and> property_schema p =
       [(''type'', PStr (param_type p)), (''description'', PStr (param_description p))]
       @ (if enum_truthy (param_enum p) then [(''enum'', PList (enum_values (param_enum p)))]
          else [])
       @ (if param_default p = PNone then [] else [(''default'', param_default p)])
   \<and> required (schema_parameters (to_langchain_tool_schema self))
       = map param_name (filter param_required (parameters (metadata self)))
   \<and> set (required (schema_parameters (to_langchain_tool_schema self)))
       = {param_name q |q. q \<in> set (parameters (metadata self)) \<and> param_required q}"
proof (intro conjI)
  show "property_schema p =
       [(''type'', PStr (param_type p)), (''description'', PStr (param_description p))]
       @ (if enum_truthy (param_enum p) then [(''enum'', PList (enum_values (param_enum p)))]
          else [])
       @ (if param_default p = PNone then [] else [(''default'', param_default p)])"
    by (rule property_schema_list)
  show "set (required (schema_parameters (to_langchain_tool_schema self)))
       = {param_name q |q. q \<in> set (parameters (metadata self)) \<and> param_required q}"
    by (auto simp: to_langchain_tool_schema_def)
qed (simp_all add: to_langchain_tool_schema_def properties_keys properties_distinct
       properties_lookup)

text \<open>
  Claim C6 as stated fails: \<open>schema_tool\<close> has three parameter descriptors and two
  properties, and the property of \<^verbatim>\<open>mode\<close>, whose \<^verbatim>\<open>enum\<close> is present and empty, carries no
  \<^verbatim>\<open>enum\<close>.
\<close>

theorem schema_export_counterexample:
  "parameters (metadata schema_tool) = [mode_param, text_param ''string'', text_param ''integer'']
   \<and> param_enum mode_param = Some []
   \<and> properties (schema_parameters (to_langchain_tool_schema schema_tool))
       = [(''mode'', [(''type'', PStr ''string''), (''description'', PStr ''mode'')]),
          (''text'', [(''type'', PStr ''integer''), (''description'', PStr ''text'')])]"
  by (simp add: to_langchain_tool_schema_def schema_tool_def mode_param_def text_param_def
        property_schema_def enum_truthy_def)

end
